theory Spec2Isabelle
  imports Complex_Main "HOL-Library.Word"
begin

section \<open>Data model\<close>

text \<open>
  Audio payloads are Python \<open>bytes\<close> objects: lists of octets. A decoded frame is a
  numpy \<open>int16\<close> array: a list of 16-bit words read as signed.
\<close>

type_synonym byte = "8 word"
type_synonym bytes = "byte list"
type_synonym int16 = "16 word"

text \<open>The exceptions that the modelled code paths can see.\<close>

datatype py_exception = ValueError | RuntimeError | RpcError | WaveError

text \<open>
  A Python \<open>float\<close>, as returned by \<open>.item()\<close>: a finite value (kept as the rational it
  denotes), an infinity, or NaN.
\<close>

datatype pyfloat = Finite rat | PosInf | NegInf | NaN

text \<open>
  \<open>speech_prob > 0.7\<close>. The literal \<open>0.7\<close> is the double nearest to 7/10, which lies
  just below 7/10, and no double lies between the two; so for every finite double the
  comparison with the literal has the value of the comparison with 7/10. Every comparison
  with NaN is false.
\<close>

fun gt_threshold :: "pyfloat \<Rightarrow> bool" where
  "gt_threshold (Finite p) = (p > 7 / 10)"
| "gt_threshold PosInf = True"
| "gt_threshold NegInf = False"
| "gt_threshold NaN = False"

definition SAMPLE_RATE :: nat where
  "SAMPLE_RATE = 16000"

definition VAD_CHUNK_SIZE :: nat where
  "VAD_CHUNK_SIZE = 512"

text \<open>
  The Silero model is a module-level object shared by all sessions, with internal state
  that a call may change. It is a parameter of the development: a function from its
  state \<open>'m\<close>, the input tensor (a batch of rows of samples) and the sample rate to either
  an exception or the probability, with the new state.
\<close>

type_synonym 'm scorer = "'m \<Rightarrow> rat list list \<Rightarrow> nat \<Rightarrow> (py_exception + pyfloat) \<times> 'm"

record VADProcessor =
  speech_detected :: bool
  accumulated_audio :: "bytes list"

text \<open>\<open>VADProcessor.__init__\<close>\<close>

definition new_VADProcessor :: VADProcessor where
  "new_VADProcessor = \<lparr>speech_detected = False, accumulated_audio = []\<rparr>"

record VADResponse =
  event :: string
  message :: string

record VADServicer =
  client_processors :: "string \<rightharpoonup> VADProcessor"

section \<open>Server: \<open>VADProcessor\<close>\<close>

text \<open>
  \<open>np.frombuffer(audio_chunk, np.int16)\<close>: raises \<open>ValueError\<close> when the buffer size is not
  a multiple of the element size; otherwise pairs of octets, low octet first.
\<close>

fun int16_samples :: "bytes \<Rightarrow> int16 list" where
  "int16_samples (lo # hi # rest) = word_of_nat (unat lo + 256 * unat hi) # int16_samples rest"
| "int16_samples _ = []"

definition frombuffer_int16 :: "bytes \<Rightarrow> py_exception + int16 list" where
  "frombuffer_int16 audio_chunk =
     (if length audio_chunk mod 2 \<noteq> 0 then Inl ValueError
      else Inr (int16_samples audio_chunk))"

text \<open>
  Lines 69 to 90 of \<open>process_chunk\<close>: decode, pad or truncate to \<open>VAD_CHUNK_SIZE\<close>
  samples, convert to float32 divided by 32768 (exact for 16-bit values), and wrap the
  one-dimensional tensor into a batch of one row.
\<close>

definition audio_tensor_of :: "bytes \<Rightarrow> py_exception + rat list list" where
  "audio_tensor_of audio_chunk =
     (case frombuffer_int16 audio_chunk of
        Inl e \<Rightarrow> Inl e
      | Inr audio_int16 \<Rightarrow>
          (let audio_int16 =
                 (if length audio_int16 \<noteq> VAD_CHUNK_SIZE then
                    (if length audio_int16 > VAD_CHUNK_SIZE then take VAD_CHUNK_SIZE audio_int16
                     else audio_int16 @ replicate (VAD_CHUNK_SIZE - length audio_int16) 0)
                  else audio_int16);
               audio_float32 = map (\<lambda>s. rat_of_int (sint s) / 32768) audio_int16
           in Inr [audio_float32]))"

text \<open>
  \<open>process_chunk\<close>. The whole body is inside \<open>try\<close>; every exception is caught and the
  method returns \<open>"continue"\<close>. The two places that can raise (the decoding and the model
  call) come before the append to \<open>accumulated_audio\<close>.
\<close>

definition process_chunk ::
  "'m scorer \<Rightarrow> 'm \<Rightarrow> VADProcessor \<Rightarrow> bytes \<Rightarrow> string \<times> VADProcessor \<times> 'm" where
  "process_chunk model m self audio_chunk =
     (case audio_tensor_of audio_chunk of
        Inl e \<Rightarrow> (''continue'', self, m)
      | Inr audio_tensor \<Rightarrow>
          (case model m audio_tensor SAMPLE_RATE of
             (Inl e, m') \<Rightarrow> (''continue'', self, m')
           | (Inr speech_prob, m') \<Rightarrow>
               (let self1 = self\<lparr>accumulated_audio := accumulated_audio self @ [audio_chunk]\<rparr>;
                    speech_detected_now = gt_threshold speech_prob
                in if speech_detected_now \<and> \<not> speech_detected self1 then
                     (''start'', self1\<lparr>speech_detected := True\<rparr>, m')
                   else if \<not> speech_detected_now \<and> speech_detected self1 then
                     (''end'', self1\<lparr>speech_detected := False\<rparr>, m')
                   else (''continue'', self1, m'))))"

text \<open>\<open>get_accumulated_audio\<close>: the joined buffer, and the processor with the buffer cleared.\<close>

definition get_accumulated_audio :: "VADProcessor \<Rightarrow> bytes \<times> VADProcessor" where
  "get_accumulated_audio self = (concat (accumulated_audio self), self\<lparr>accumulated_audio := []\<rparr>)"

text \<open>
  \<open>reset\<close>. No code sets a \<open>vad_iterator\<close> attribute, so the \<open>hasattr\<close> branch is never
  taken.
\<close>

definition reset :: "VADProcessor \<Rightarrow> VADProcessor" where
  "reset self = self\<lparr>speech_detected := False, accumulated_audio := []\<rparr>"

section \<open>Server: \<open>VADServicer\<close>\<close>

text \<open>\<open>str\<close> of a non-negative integer, for the f-string of the \<open>end\<close> message.\<close>

function str_nat :: "nat \<Rightarrow> string" where
  "str_nat n = (if n < 10 then [''0123456789'' ! n] else str_nat (n div 10) @ [''0123456789'' ! (n mod 10)])"
  by pat_completeness auto
termination
  by (relation "measure id") auto

declare str_nat.simps [simp del]

text \<open>
  One iteration of the \<open>for request in request_iterator\<close> loop: the status of the chunk,
  and the response yielded for it, if any.
\<close>

definition handle_request ::
  "'m scorer \<Rightarrow> 'm \<Rightarrow> VADProcessor \<Rightarrow> bytes \<Rightarrow> VADResponse option \<times> VADProcessor \<times> 'm" where
  "handle_request model m processor audio_chunk =
     (case process_chunk model m processor audio_chunk of
        (status, processor1, m1) \<Rightarrow>
          if status = ''end'' then
            (case get_accumulated_audio processor1 of
               (audio_data, processor2) \<Rightarrow>
                 (Some \<lparr>event = status,
                        message = ''Speech ended, '' @ str_nat (length audio_data)
                                  @ '' bytes processed for STT''\<rparr>,
                  processor2, m1))
          else if status = ''start'' then
            (Some \<lparr>event = status, message = ''Speech detected''\<rparr>, processor1, m1)
          else (None, processor1, m1))"

text \<open>The loop over the requests that arrive, collecting what is yielded, in order.\<close>

fun handle_requests ::
  "'m scorer \<Rightarrow> 'm \<Rightarrow> VADProcessor \<Rightarrow> bytes list \<Rightarrow> VADResponse list \<times> VADProcessor \<times> 'm" where
  "handle_requests model m processor [] = ([], processor, m)"
| "handle_requests model m processor (audio_chunk # rest) =
     (case handle_request model m processor audio_chunk of
        (r, processor1, m1) \<Rightarrow>
          (case handle_requests model m1 processor1 rest of
             (out, processor2, m2) \<Rightarrow>
               ((case r of None \<Rightarrow> out | Some resp \<Rightarrow> resp # out), processor2, m2)))"

text \<open>
  How the inbound request iterator ends: exhausted, or raising (a transport fault). How
  the call ends: normally, or aborted with status INTERNAL and a message.
\<close>

datatype stream_end = EOF | Raises py_exception

datatype rpc_outcome = Completed | Aborted_INTERNAL

text \<open>
  \<open>ProcessAudio\<close>. The processor is looked up under \<open>context.peer()\<close>, created if absent.
  The loop mutates the registered object in place, which is the store into \<open>procs2\<close> here.
  Nothing in the loop body raises (\<open>process_chunk\<close> catches everything), so an exception
  can only come from the request iterator, after the requests that did arrive; then
  \<open>context.abort\<close> ends the call with status INTERNAL. The \<open>finally\<close> block resets the
  processor registered under the client id; no statement of the class deletes an entry of
  \<open>client_processors\<close>.
\<close>

definition ProcessAudio ::
  "'m scorer \<Rightarrow> 'm \<times> VADServicer \<Rightarrow> string \<Rightarrow> bytes list \<Rightarrow> stream_end
     \<Rightarrow> (VADResponse list \<times> rpc_outcome) \<times> ('m \<times> VADServicer)" where
  "ProcessAudio model st client_id requests ending =
     (case st of (m, self) \<Rightarrow>
        (case (case client_processors self client_id of
                 None \<Rightarrow> ((client_processors self)(client_id \<mapsto> new_VADProcessor), new_VADProcessor)
               | Some p \<Rightarrow> (client_processors self, p)) of
           (procs1, processor) \<Rightarrow>
             (case handle_requests model m processor requests of
                (out, processor1, m1) \<Rightarrow>
                  (let procs2 = procs1(client_id \<mapsto> processor1);
                       outcome = (case ending of EOF \<Rightarrow> Completed | Raises e \<Rightarrow> Aborted_INTERNAL);
                       procs3 = (case procs2 client_id of
                                   None \<Rightarrow> procs2
                                 | Some p \<Rightarrow> procs2(client_id \<mapsto> reset p))
                   in ((out, outcome), (m1, self\<lparr>client_processors := procs3\<rparr>))))))"

text \<open>\<open>ResetVAD\<close>: the \<open>success\<close> field of the response, and the servicer afterwards.\<close>

definition ResetVAD :: "VADServicer \<Rightarrow> string \<Rightarrow> bool \<times> VADServicer" where
  "ResetVAD self client_id =
     (case client_processors self client_id of
        None \<Rightarrow> (True, self)
      | Some p \<Rightarrow> (True, self\<lparr>client_processors := (client_processors self)(client_id \<mapsto> reset p)\<rparr>))"

section \<open>Client: \<open>FileVADClient.read_wav_file\<close>\<close>

text \<open>
  An open \<open>wave\<close> reader: the header's parameters and the bytes of the data chunk not
  yet read. \<open>readframes(n)\<close> returns at most \<open>n\<close> frames of \<open>nchannels * sampwidth\<close> bytes
  each (fewer at the end of the data, \<open>b''\<close> when nothing is left) and advances.
\<close>

record wave_file =
  nchannels :: nat
  sampwidth :: nat
  framerate :: nat
  frames_data :: bytes

definition readframes :: "wave_file \<Rightarrow> nat \<Rightarrow> bytes \<times> wave_file" where
  "readframes wav nframes =
     (if nframes = 0 then ([], wav)
      else (take (nframes * (nchannels wav * sampwidth wav)) (frames_data wav),
            wav\<lparr>frames_data := drop (nframes * (nchannels wav * sampwidth wav)) (frames_data wav)\<rparr>))"

text \<open>
  The \<open>while data and self.running\<close> loop. \<open>running i\<close> is the value of the flag at the
  \<open>i\<close>-th test of the loop condition (another thread may clear it). Python's
  \<open>b'\\x00' * k\<close> is empty for a negative \<open>k\<close>.
\<close>

function read_wav_file_loop ::
  "(nat \<Rightarrow> bool) \<Rightarrow> nat \<Rightarrow> nat \<Rightarrow> wave_file \<Rightarrow> bytes \<Rightarrow> bytes list" where
  "read_wav_file_loop running i bytes_per_chunk wav data =
     (if data \<noteq> [] \<and> running i then
        (if length data = bytes_per_chunk then [data]
         else if length data > 0 then
           [data @ replicate (nat (int bytes_per_chunk - int (length data))) 0]
         else [])
        @ (case readframes wav VAD_CHUNK_SIZE of
             (data', wav') \<Rightarrow> read_wav_file_loop running (Suc i) bytes_per_chunk wav' data')
      else [])"
  by pat_completeness auto
termination
  by (relation "measure (\<lambda>(running, i, bytes_per_chunk, wav, data).
                           length data + length (frames_data wav))")
     (auto simp: readframes_def VAD_CHUNK_SIZE_def min_def split: if_splits)

declare read_wav_file_loop.simps [simp del]

text \<open>
  \<open>read_wav_file\<close>, given what \<open>wave.open\<close> produced. An exception is caught and printed,
  and the generator ends having yielded nothing. A format mismatch only prints a warning.
\<close>

definition read_wav_file :: "(nat \<Rightarrow> bool) \<Rightarrow> py_exception + wave_file \<Rightarrow> bytes list" where
  "read_wav_file running opened =
     (case opened of
        Inl e \<Rightarrow> []
      | Inr wav \<Rightarrow>
          (let bytes_per_chunk = VAD_CHUNK_SIZE * sampwidth wav
           in case readframes wav VAD_CHUNK_SIZE of
                (data, wav1) \<Rightarrow> read_wav_file_loop running 0 bytes_per_chunk wav1 data))"

text \<open>The flag as \<open>stream_file\<close> sets it, with no call of \<open>stop_streaming\<close>.\<close>

definition always_running :: "nat \<Rightarrow> bool" where
  "always_running i = True"

section \<open>A scripted scorer\<close>

text \<open>
  A stub model whose state is the list of results still to be returned: each call returns
  the next one, whatever the tensor. With the script used up it raises.
\<close>

fun scripted :: "(py_exception + pyfloat) list scorer" where
  "scripted [] audio_tensor sr = (Inl RuntimeError, [])"
| "scripted (r # rs) audio_tensor sr = (r, rs)"

text \<open>
  The value the loop variable \<open>status\<close> takes for each request of a stream, in order.
\<close>

fun statuses :: "'m scorer \<Rightarrow> 'm \<Rightarrow> VADProcessor \<Rightarrow> bytes list \<Rightarrow> string list" where
  "statuses model m processor [] = []"
| "statuses model m processor (audio_chunk # rest) =
     (case handle_request model m processor audio_chunk of
        (r, processor1, m1) \<Rightarrow>
          fst (process_chunk model m processor audio_chunk) # statuses model m1 processor1 rest)"

text \<open>
  The requests of a stream for which \<open>process_chunk\<close> reaches the append to the
  accumulator: those that decode and that the model scores without raising.
\<close>

fun scored_frames :: "'m scorer \<Rightarrow> 'm \<Rightarrow> bytes list \<Rightarrow> bytes list" where
  "scored_frames model m [] = []"
| "scored_frames model m (audio_chunk # rest) =
     (case audio_tensor_of audio_chunk of
        Inl e \<Rightarrow> scored_frames model m rest
      | Inr audio_tensor \<Rightarrow>
          (case model m audio_tensor SAMPLE_RATE of
             (Inl e, m1) \<Rightarrow> scored_frames model m1 rest
           | (Inr speech_prob, m1) \<Rightarrow> audio_chunk # scored_frames model m1 rest))"

text \<open>The scores of the ten-frame scenario, as the script of the stub.\<close>

definition scenario_script :: "(py_exception + pyfloat) list" where
  "scenario_script =
     map (\<lambda>p. Inr (Finite p)) [1/10, 1/10, 9/10, 9/10, 9/10, 2/10, 2/10, 9/10, 1/10, 1/10]"

section \<open>The state machine of \<open>process_chunk\<close>\<close>

lemma frombuffer_odd: "odd (length c) \<Longrightarrow> frombuffer_int16 c = Inl ValueError"
  by (simp add: frombuffer_int16_def odd_iff_mod_2_eq_one)

lemma frombuffer_even: "even (length c) \<Longrightarrow> frombuffer_int16 c = Inr (int16_samples c)"
  by (simp add: frombuffer_int16_def)

lemma audio_tensor_of_odd: "odd (length c) \<Longrightarrow> audio_tensor_of c = Inl ValueError"
  by (simp add: audio_tensor_of_def frombuffer_odd)

lemma audio_tensor_of_even: "even (length c) \<Longrightarrow> \<exists>x. audio_tensor_of c = Inr x"
  by (simp add: audio_tensor_of_def frombuffer_even Let_def)

lemma audio_tensor_of_error: "audio_tensor_of c = Inl e \<Longrightarrow> e = ValueError \<and> odd (length c)"
  by (auto simp: audio_tensor_of_def frombuffer_int16_def Let_def split: if_splits sum.splits)

lemma process_chunk_scored:
  assumes "audio_tensor_of c = Inr x" and "model m x SAMPLE_RATE = (Inr p, m1)"
  shows "process_chunk model m self c =
           (if gt_threshold p \<and> \<not> speech_detected self then ''start''
            else if \<not> gt_threshold p \<and> speech_detected self then ''end''
            else ''continue'',
            self\<lparr>accumulated_audio := accumulated_audio self @ [c],
                 speech_detected := gt_threshold p\<rparr>,
            m1)"
  using assms by (auto simp: process_chunk_def Let_def)

lemma process_chunk_undecodable:
  "audio_tensor_of c = Inl e \<Longrightarrow> process_chunk model m self c = (''continue'', self, m)"
  by (simp add: process_chunk_def)

lemma process_chunk_scorer_raises:
  "audio_tensor_of c = Inr x \<Longrightarrow> model m x SAMPLE_RATE = (Inl e, m1)
     \<Longrightarrow> process_chunk model m self c = (''continue'', self, m1)"
  by (simp add: process_chunk_def)

lemma process_chunk_scripted:
  "even (length c) \<Longrightarrow> process_chunk scripted (Inr p # rs) self c =
           (if gt_threshold p \<and> \<not> speech_detected self then ''start''
            else if \<not> gt_threshold p \<and> speech_detected self then ''end''
            else ''continue'',
            self\<lparr>accumulated_audio := accumulated_audio self @ [c],
                 speech_detected := gt_threshold p\<rparr>,
            rs)"
  using audio_tensor_of_even[of c] by (auto simp: process_chunk_scored)

text \<open>
  C1. A frame that is decoded and scored with probability \<open>p\<close> moves the state machine by
  \<open>detected = p > 0.7\<close>: silent and detected gives \<open>start\<close> and speaking; speaking and not
  detected gives \<open>end\<close> and silent; the two other cases give \<open>continue\<close> and leave the
  state as it is. In particular a second detected frame right after a \<open>start\<close> gives
  \<open>continue\<close>, not a second \<open>start\<close>.
\<close>

theorem process_chunk_transitions:
  assumes "audio_tensor_of c = Inr x" and "model m x SAMPLE_RATE = (Inr p, m1)"
  shows "(\<not> speech_detected self \<and> gt_threshold p \<longrightarrow>
            fst (process_chunk model m self c) = ''start''
            \<and> speech_detected (fst (snd (process_chunk model m self c))))
       \<and> (speech_detected self \<and> \<not> gt_threshold p \<longrightarrow>
            fst (process_chunk model m self c) = ''end''
            \<and> \<not> speech_detected (fst (snd (process_chunk model m self c))))
       \<and> ((speech_detected self \<longleftrightarrow> gt_threshold p) \<longrightarrow>
            fst (process_chunk model m self c) = ''continue''
            \<and> speech_detected (fst (snd (process_chunk model m self c))) = speech_detected self)
       \<and> (\<not> speech_detected self \<and> gt_threshold p
            \<and> audio_tensor_of c2 = Inr x2 \<and> model m1 x2 SAMPLE_RATE = (Inr p2, m2)
            \<and> gt_threshold p2 \<longrightarrow>
            fst (process_chunk model m self c) = ''start''
            \<and> fst (process_chunk model (snd (snd (process_chunk model m self c)))
                      (fst (snd (process_chunk model m self c))) c2) = ''continue''
            \<and> speech_detected
                  (fst (snd (process_chunk model (snd (snd (process_chunk model m self c)))
                               (fst (snd (process_chunk model m self c))) c2))))"
  using assms by (auto simp: process_chunk_scored)

theorem process_chunk_transitions_witness:
  "fst (process_chunk scripted [Inr (Finite (9/10)), Inr (Finite (9/10))] new_VADProcessor [1, 2]) = ''start''
   \<and> speech_detected (fst (snd (process_chunk scripted [Inr (Finite (9/10)), Inr (Finite (9/10))] new_VADProcessor [1, 2])))
   \<and> fst (process_chunk scripted
            (snd (snd (process_chunk scripted [Inr (Finite (9/10)), Inr (Finite (9/10))] new_VADProcessor [1, 2])))
            (fst (snd (process_chunk scripted [Inr (Finite (9/10)), Inr (Finite (9/10))] new_VADProcessor [1, 2])))
            [3, 4]) = ''continue''
   \<and> fst (process_chunk scripted [Inr (Finite (1/10))]
            \<lparr>speech_detected = True, accumulated_audio = [[1, 2]]\<rparr> [3, 4]) = ''end''
   \<and> fst (process_chunk scripted [Inr (Finite (1/10))] new_VADProcessor [3, 4]) = ''continue''"
proof -
  obtain x where x: "audio_tensor_of [1, 2] = Inr x"
    using audio_tensor_of_even [of "[1, 2]"] by auto
  obtain x2 where x2: "audio_tensor_of [3, 4] = Inr x2"
    using audio_tensor_of_even [of "[3, 4]"] by auto
  have s1: "scripted [Inr (Finite (9/10)), Inr (Finite (9/10))] x SAMPLE_RATE
              = (Inr (Finite (9/10)), [Inr (Finite (9/10))])"
    by simp
  have s2: "scripted [Inr (Finite (9/10))] x2 SAMPLE_RATE = (Inr (Finite (9/10)), [])"
    by simp
  have s3: "scripted [Inr (Finite (1/10))] x2 SAMPLE_RATE = (Inr (Finite (1/10)), [])"
    by simp
  have g: "gt_threshold (Finite (9/10))" "\<not> gt_threshold (Finite (1/10))"
    by simp_all
  have n: "\<not> speech_detected new_VADProcessor"
    by (simp add: new_VADProcessor_def)
  note a = process_chunk_transitions
             [where model = scripted and self = new_VADProcessor and ?c2.0 = "[3, 4]"
                and ?x2.0 = x2 and ?p2.0 = "Finite (9/10)" and ?m2.0 = "[]", OF x s1]
  note b = process_chunk_transitions
             [where model = scripted
                and self = "\<lparr>speech_detected = True, accumulated_audio = [[1, 2]]\<rparr>", OF x2 s3]
  note c = process_chunk_transitions
             [where model = scripted and self = new_VADProcessor, OF x2 s3]
  from a g n x2 s2 have a1: "fst (process_chunk scripted [Inr (Finite (9/10)), Inr (Finite (9/10))] new_VADProcessor [1, 2]) = ''start''
   \<and> speech_detected (fst (snd (process_chunk scripted [Inr (Finite (9/10)), Inr (Finite (9/10))] new_VADProcessor [1, 2])))
   \<and> fst (process_chunk scripted
            (snd (snd (process_chunk scripted [Inr (Finite (9/10)), Inr (Finite (9/10))] new_VADProcessor [1, 2])))
            (fst (snd (process_chunk scripted [Inr (Finite (9/10)), Inr (Finite (9/10))] new_VADProcessor [1, 2])))
            [3, 4]) = ''continue''"
    by blast
  from b g have b1: "fst (process_chunk scripted [Inr (Finite (1/10))]
            \<lparr>speech_detected = True, accumulated_audio = [[1, 2]]\<rparr> [3, 4]) = ''end''"
    by simp
  from c g n have c1: "fst (process_chunk scripted [Inr (Finite (1/10))] new_VADProcessor [3, 4]) = ''continue''"
    by simp
  from a1 b1 c1 show ?thesis by blast
qed

section \<open>Decoding, fitting and faults\<close>

lemma length_int16_samples: "length (int16_samples c) = length c div 2"
  by (induction c rule: int16_samples.induct) simp_all

lemma audio_tensor_of_fitted:
  assumes "even (length c)"
  shows "audio_tensor_of c =
           Inr [if length c div 2 > 512
                then map (\<lambda>s. rat_of_int (sint s) / 32768) (take 512 (int16_samples c))
                else map (\<lambda>s. rat_of_int (sint s) / 32768) (int16_samples c)
                     @ replicate (512 - length c div 2) 0]"
  using assms
  by (simp add: audio_tensor_of_def frombuffer_even Let_def VAD_CHUNK_SIZE_def
      length_int16_samples)

lemma process_chunk_status:
  "fst (process_chunk model m self c) \<in> {''start'', ''end'', ''continue''}"
  by (auto simp: process_chunk_def Let_def split: sum.splits prod.splits)

lemma handle_request_undecodable:
  "audio_tensor_of c = Inl e \<Longrightarrow> handle_request model m self c = (None, self, m)"
  by (simp add: handle_request_def process_chunk_undecodable)

lemma handle_request_scorer_raises:
  "audio_tensor_of c = Inr x \<Longrightarrow> model m x SAMPLE_RATE = (Inl e, m1)
     \<Longrightarrow> handle_request model m self c = (None, self, m1)"
  by (simp add: handle_request_def process_chunk_scorer_raises)

lemma handle_request_scored:
  assumes "audio_tensor_of c = Inr x" and "model m x SAMPLE_RATE = (Inr p, m1)"
  shows "handle_request model m self c =
           (if gt_threshold p \<and> \<not> speech_detected self then
              (Some \<lparr>event = ''start'', message = ''Speech detected''\<rparr>,
               self\<lparr>accumulated_audio := accumulated_audio self @ [c], speech_detected := True\<rparr>,
               m1)
            else if \<not> gt_threshold p \<and> speech_detected self then
              (Some \<lparr>event = ''end'',
                     message = ''Speech ended, ''
                               @ str_nat (length (concat (accumulated_audio self @ [c])))
                               @ '' bytes processed for STT''\<rparr>,
               self\<lparr>accumulated_audio := [], speech_detected := False\<rparr>, m1)
            else (None,
                  self\<lparr>accumulated_audio := accumulated_audio self @ [c],
                       speech_detected := gt_threshold p\<rparr>, m1))"
  using assms
  by (auto simp: handle_request_def process_chunk_scored get_accumulated_audio_def)

text \<open>
  C8 as stated fails: a frame of odd byte length has a sample count other than 512, and it
  is neither padded nor truncated nor scored. The decoding raises, the model is not
  called (its script is still whole), and the frame is dropped with status \<open>continue\<close>.
  The frame one byte shorter is padded, scored and starts speech.
\<close>

theorem odd_length_frame_is_not_scored:
  "audio_tensor_of (replicate 1023 0) = Inl ValueError
   \<and> process_chunk scripted [Inr (Finite (9/10))] new_VADProcessor (replicate 1023 0)
       = (''continue'', new_VADProcessor, [Inr (Finite (9/10))])
   \<and> process_chunk scripted [Inr (Finite (9/10))] new_VADProcessor (replicate 1022 0)
       = (''start'', \<lparr>speech_detected = True, accumulated_audio = [replicate 1022 0]\<rparr>, [])"
  by (simp add: audio_tensor_of_odd process_chunk_undecodable process_chunk_scripted
      new_VADProcessor_def)

text \<open>
  C8, amended. A frame of even byte length is never rejected: whatever its sample count,
  the model is called on exactly 512 samples, the first 512 of a longer frame, or the
  samples of a shorter one followed by zeros, and the result of \<open>process_chunk\<close> is the one
  the model's answer decides. A frame of odd byte length is not decoded, and is treated
  as a failure. When the decoding or the model raises, the status is \<open>continue\<close>, the
  processor is unchanged, the handler yields nothing, and the stream goes on with the next
  request.
\<close>

theorem frame_is_fitted_and_fault_is_continue:
  "(even (length c) \<longrightarrow>
      (\<exists>row. audio_tensor_of c = Inr [row] \<and> length row = 512
         \<and> (length (int16_samples c) > 512 \<longrightarrow>
               row = map (\<lambda>s. rat_of_int (sint s) / 32768) (take 512 (int16_samples c)))
         \<and> (length (int16_samples c) \<le> 512 \<longrightarrow>
               row = map (\<lambda>s. rat_of_int (sint s) / 32768) (int16_samples c)
                     @ replicate (512 - length (int16_samples c)) 0)
         \<and> process_chunk model m self c =
              (case model m [row] SAMPLE_RATE of
                 (Inl e, m') \<Rightarrow> (''continue'', self, m')
               | (Inr p, m') \<Rightarrow>
                   (if gt_threshold p \<and> \<not> speech_detected self then ''start''
                    else if \<not> gt_threshold p \<and> speech_detected self then ''end''
                    else ''continue'',
                    self\<lparr>accumulated_audio := accumulated_audio self @ [c],
                         speech_detected := gt_threshold p\<rparr>, m'))))
   \<and> (odd (length c) \<longrightarrow>
        audio_tensor_of c = Inl ValueError
        \<and> process_chunk model m self c = (''continue'', self, m)
        \<and> handle_request model m self c = (None, self, m)
        \<and> handle_requests model m self (c # rest) = handle_requests model m self rest)
   \<and> (audio_tensor_of c = Inr x \<and> model m x SAMPLE_RATE = (Inl e, m1) \<longrightarrow>
        process_chunk model m self c = (''continue'', self, m1)
        \<and> handle_request model m self c = (None, self, m1)
        \<and> handle_requests model m self (c # rest) = handle_requests model m1 self rest)"
proof -
  have A: "\<exists>row. audio_tensor_of c = Inr [row] \<and> length row = 512
         \<and> (length (int16_samples c) > 512 \<longrightarrow>
               row = map (\<lambda>s. rat_of_int (sint s) / 32768) (take 512 (int16_samples c)))
         \<and> (length (int16_samples c) \<le> 512 \<longrightarrow>
               row = map (\<lambda>s. rat_of_int (sint s) / 32768) (int16_samples c)
                     @ replicate (512 - length (int16_samples c)) 0)
         \<and> process_chunk model m self c =
              (case model m [row] SAMPLE_RATE of
                 (Inl e, m') \<Rightarrow> (''continue'', self, m')
               | (Inr p, m') \<Rightarrow>
                   (if gt_threshold p \<and> \<not> speech_detected self then ''start''
                    else if \<not> gt_threshold p \<and> speech_detected self then ''end''
                    else ''continue'',
                    self\<lparr>accumulated_audio := accumulated_audio self @ [c],
                         speech_detected := gt_threshold p\<rparr>, m'))" if ev: "even (length c)"
  proof -
    define row where "row = (if length c div 2 > 512
                then map (\<lambda>s. rat_of_int (sint s) / 32768) (take 512 (int16_samples c))
                else map (\<lambda>s. rat_of_int (sint s) / 32768) (int16_samples c)
                     @ replicate (512 - length c div 2) 0)"
    have t: "audio_tensor_of c = Inr [row]"
      using audio_tensor_of_fitted [OF ev] by (simp add: row_def)
    have l: "length row = 512"
      by (simp add: row_def length_int16_samples)
    have p: "process_chunk model m self c =
              (case model m [row] SAMPLE_RATE of
                 (Inl e, m') \<Rightarrow> (''continue'', self, m')
               | (Inr p, m') \<Rightarrow>
                   (if gt_threshold p \<and> \<not> speech_detected self then ''start''
                    else if \<not> gt_threshold p \<and> speech_detected self then ''end''
                    else ''continue'',
                    self\<lparr>accumulated_audio := accumulated_audio self @ [c],
                         speech_detected := gt_threshold p\<rparr>, m'))"
      using t
      by (auto simp: process_chunk_scored process_chunk_scorer_raises
          split: prod.splits sum.splits)
    show ?thesis
      using t l p by (intro exI [of _ row]) (simp add: row_def length_int16_samples)
  qed
  have B: "process_chunk model m self c = (''continue'', self, m1)
        \<and> handle_request model m self c = (None, self, m1)
        \<and> handle_requests model m self (c # rest) = handle_requests model m1 self rest"
    if "audio_tensor_of c = Inr x" "model m x SAMPLE_RATE = (Inl e, m1)"
    using that
    by (simp add: process_chunk_scorer_raises handle_request_scorer_raises split: prod.splits)
  have C: "audio_tensor_of c = Inl ValueError
        \<and> process_chunk model m self c = (''continue'', self, m)
        \<and> handle_request model m self c = (None, self, m)
        \<and> handle_requests model m self (c # rest) = handle_requests model m self rest"
    if "odd (length c)"
    using audio_tensor_of_odd [OF that]
    by (simp add: process_chunk_undecodable handle_request_undecodable split: prod.splits)
  from A B C show ?thesis by blast
qed

theorem frame_is_fitted_and_fault_is_continue_witness:
  "(\<exists>row. audio_tensor_of [1, 2, 3, 255] = Inr [row] \<and> length row = 512
      \<and> row = map (\<lambda>s. rat_of_int (sint s) / 32768) (int16_samples [1, 2, 3, 255])
              @ replicate 510 0)
   \<and> (\<exists>row. audio_tensor_of (replicate 1026 7) = Inr [row] \<and> length row = 512
      \<and> row = map (\<lambda>s. rat_of_int (sint s) / 32768) (take 512 (int16_samples (replicate 1026 7))))
   \<and> process_chunk scripted [Inl RuntimeError] new_VADProcessor [1, 2, 3, 255]
       = (''continue'', new_VADProcessor, [])
   \<and> handle_request scripted [Inl RuntimeError] new_VADProcessor [1, 2, 3, 255]
       = (None, new_VADProcessor, [])
   \<and> process_chunk scripted [Inr (Finite (9/10))] new_VADProcessor [7]
       = (''continue'', new_VADProcessor, [Inr (Finite (9/10))])
   \<and> handle_request scripted [Inr (Finite (9/10))] new_VADProcessor [7]
       = (None, new_VADProcessor, [Inr (Finite (9/10))])"
proof -
  note o = frame_is_fitted_and_fault_is_continue
             [where c = "[7]" and model = scripted and m = "[Inr (Finite (9/10))]"
                and self = new_VADProcessor]
  have e: "process_chunk scripted [Inr (Finite (9/10))] new_VADProcessor [7]
             = (''continue'', new_VADProcessor, [Inr (Finite (9/10))])
           \<and> handle_request scripted [Inr (Finite (9/10))] new_VADProcessor [7]
             = (None, new_VADProcessor, [Inr (Finite (9/10))])"
    using o by simp
  note a = frame_is_fitted_and_fault_is_continue
             [where c = "[1, 2, 3, 255]" and model = scripted and m = "[Inl RuntimeError]"
                and self = new_VADProcessor and e = RuntimeError and ?m1.0 = "[]" and rest = "[]"]
  note b = frame_is_fitted_and_fault_is_continue
             [where c = "replicate 1026 7" and model = scripted and m = "[]"
                and self = new_VADProcessor]
  have l1: "length (int16_samples [1, 2, 3, 255]) = 2"
    by simp
  have l2: "length (int16_samples (replicate 1026 7)) = 513"
    by (simp add: length_int16_samples)
  from a obtain row where r: "audio_tensor_of [1, 2, 3, 255] = Inr [row]" "length row = 512"
      "row = map (\<lambda>s. rat_of_int (sint s) / 32768) (int16_samples [1, 2, 3, 255])
              @ replicate 510 0"
    using l1 by auto
  have s: "scripted [Inl RuntimeError] [row] SAMPLE_RATE = (Inl RuntimeError, [])"
    by simp
  from a [where x = "[row]"] r(1) s
  have c: "process_chunk scripted [Inl RuntimeError] new_VADProcessor [1, 2, 3, 255]
             = (''continue'', new_VADProcessor, [])
           \<and> handle_request scripted [Inl RuntimeError] new_VADProcessor [1, 2, 3, 255]
             = (None, new_VADProcessor, [])"
    by blast
  from b l2 have d: "\<exists>row. audio_tensor_of (replicate 1026 7) = Inr [row] \<and> length row = 512
      \<and> row = map (\<lambda>s. rat_of_int (sint s) / 32768) (take 512 (int16_samples (replicate 1026 7)))"
    by auto
  from r c d e show ?thesis by blast
qed

section \<open>The accumulator\<close>

text \<open>
  C9. A frame whose status is \<open>start\<close> leaves the accumulator as it was plus that frame,
  after \<open>process_chunk\<close> and after the handler's iteration. Only a frame whose status is
  \<open>end\<close> empties it: after any other frame the accumulator is the old one, or the old
  one plus the frame.
\<close>

theorem start_does_not_flush:
  "(fst (process_chunk model m self c) = ''start'' \<longrightarrow>
      accumulated_audio (fst (snd (process_chunk model m self c))) = accumulated_audio self @ [c]
      \<and> accumulated_audio (fst (snd (handle_request model m self c)))
          = accumulated_audio self @ [c])
   \<and> (fst (process_chunk model m self c) \<noteq> ''end'' \<longrightarrow>
        accumulated_audio (fst (snd (handle_request model m self c))) = accumulated_audio self
        \<or> accumulated_audio (fst (snd (handle_request model m self c)))
            = accumulated_audio self @ [c])
   \<and> (fst (process_chunk model m self c) = ''end'' \<longrightarrow>
        accumulated_audio (fst (snd (handle_request model m self c))) = [])"
  by (auto simp: handle_request_def process_chunk_def get_accumulated_audio_def Let_def
      split: sum.splits prod.splits)

theorem start_does_not_flush_witness:
  "fst (process_chunk scripted [Inr (Finite (9/10))]
          \<lparr>speech_detected = False, accumulated_audio = [[5, 6]]\<rparr> [1, 2]) = ''start''
   \<and> accumulated_audio (fst (snd (process_chunk scripted [Inr (Finite (9/10))]
          \<lparr>speech_detected = False, accumulated_audio = [[5, 6]]\<rparr> [1, 2]))) = [[5, 6], [1, 2]]
   \<and> accumulated_audio (fst (snd (handle_request scripted [Inr (Finite (9/10))]
          \<lparr>speech_detected = False, accumulated_audio = [[5, 6]]\<rparr> [1, 2]))) = [[5, 6], [1, 2]]
   \<and> fst (process_chunk scripted [Inr (Finite (1/10))]
          \<lparr>speech_detected = True, accumulated_audio = [[5, 6]]\<rparr> [1, 2]) = ''end''
   \<and> accumulated_audio (fst (snd (handle_request scripted [Inr (Finite (1/10))]
          \<lparr>speech_detected = True, accumulated_audio = [[5, 6]]\<rparr> [1, 2]))) = []"
proof -
  have s: "fst (process_chunk scripted [Inr (Finite (9/10))]
          \<lparr>speech_detected = False, accumulated_audio = [[5, 6]]\<rparr> [1, 2]) = ''start''"
    by (simp add: process_chunk_scripted)
  have e: "fst (process_chunk scripted [Inr (Finite (1/10))]
          \<lparr>speech_detected = True, accumulated_audio = [[5, 6]]\<rparr> [1, 2]) = ''end''"
    by (simp add: process_chunk_scripted)
  from s e
    start_does_not_flush [where model = scripted and m = "[Inr (Finite (9/10))]"
      and self = "\<lparr>speech_detected = False, accumulated_audio = [[5, 6]]\<rparr>" and c = "[1, 2]"]
    start_does_not_flush [where model = scripted and m = "[Inr (Finite (1/10))]"
      and self = "\<lparr>speech_detected = True, accumulated_audio = [[5, 6]]\<rparr>" and c = "[1, 2]"]
  show ?thesis by simp
qed

text \<open>
  C10. When the processing of a frame raises, in the decoding or in the model, nothing of
  the processor has changed when the exception is caught: the frame's bytes are not in the
  accumulator and the speaking state is the old one. The handler yields nothing for such
  a frame, and the rest of the stream is handled as if the frame had not been sent (the
  model's own state apart), so a later flush does not contain its bytes.
\<close>

theorem error_path_is_atomic:
  "(audio_tensor_of c = Inl e \<longrightarrow>
      process_chunk model m self c = (''continue'', self, m)
      \<and> handle_requests model m self (c # rest) = handle_requests model m self rest)
   \<and> (audio_tensor_of c = Inr x \<and> model m x SAMPLE_RATE = (Inl e', m1) \<longrightarrow>
      process_chunk model m self c = (''continue'', self, m1)
      \<and> handle_requests model m self (c # rest) = handle_requests model m1 self rest)"
  by (simp add: process_chunk_undecodable process_chunk_scorer_raises
      handle_request_undecodable handle_request_scorer_raises split: prod.splits)

theorem error_path_is_atomic_witness:
  "process_chunk scripted [Inr (Finite (9/10))]
       \<lparr>speech_detected = True, accumulated_audio = [[5, 6]]\<rparr> [7]
     = (''continue'', \<lparr>speech_detected = True, accumulated_audio = [[5, 6]]\<rparr>,
        [Inr (Finite (9/10))])
   \<and> handle_requests scripted [Inr (Finite (9/10))]
       \<lparr>speech_detected = True, accumulated_audio = [[5, 6]]\<rparr> [[7]]
     = ([], \<lparr>speech_detected = True, accumulated_audio = [[5, 6]]\<rparr>, [Inr (Finite (9/10))])
   \<and> process_chunk scripted [Inl RuntimeError]
       \<lparr>speech_detected = True, accumulated_audio = [[5, 6]]\<rparr> [1, 2]
     = (''continue'', \<lparr>speech_detected = True, accumulated_audio = [[5, 6]]\<rparr>, [])
   \<and> handle_requests scripted [Inl RuntimeError]
       \<lparr>speech_detected = True, accumulated_audio = [[5, 6]]\<rparr> [[1, 2]]
     = ([], \<lparr>speech_detected = True, accumulated_audio = [[5, 6]]\<rparr>, [])"
proof -
  have o: "audio_tensor_of [7] = Inl ValueError"
    by (simp add: audio_tensor_of_odd)
  obtain x where x: "audio_tensor_of [1, 2] = Inr x"
    using audio_tensor_of_even [of "[1, 2]"] by auto
  have s: "scripted [Inl RuntimeError] x SAMPLE_RATE = (Inl RuntimeError, [])"
    by simp
  note a = error_path_is_atomic
             [where c = "[7]" and e = ValueError and model = scripted
                and m = "[Inr (Finite (9/10))]" and rest = "[]"
                and self = "\<lparr>speech_detected = True, accumulated_audio = [[5, 6]]\<rparr>"]
  note b = error_path_is_atomic
             [where c = "[1, 2]" and x = x and e' = RuntimeError and model = scripted
                and m = "[Inl RuntimeError]" and ?m1.0 = "[]" and rest = "[]"
                and self = "\<lparr>speech_detected = True, accumulated_audio = [[5, 6]]\<rparr>"]
  from a o b x s show ?thesis by simp
qed

section \<open>Reset and cleanup\<close>

text \<open>
  C5. \<open>ResetVAD\<close> reports success whether or not a processor is registered under the
  identity. A registered processor is left silent with an empty accumulator; a second
  reset gives the state the first one gave; with no processor registered the servicer is
  unchanged; the entries of other identities are never touched.
\<close>

theorem ResetVAD_always_succeeds:
  "fst (ResetVAD self client_id) = True
   \<and> (client_processors self client_id \<noteq> None \<longrightarrow>
        map_option (\<lambda>p. (speech_detected p, accumulated_audio p))
          (client_processors (snd (ResetVAD self client_id)) client_id) = Some (False, []))
   \<and> ResetVAD (snd (ResetVAD self client_id)) client_id = ResetVAD self client_id
   \<and> (client_processors self client_id = None \<longrightarrow> snd (ResetVAD self client_id) = self)
   \<and> (other \<noteq> client_id \<longrightarrow>
        client_processors (snd (ResetVAD self client_id)) other = client_processors self other)"
  by (auto simp: ResetVAD_def reset_def split: option.splits)

theorem ResetVAD_always_succeeds_witness:
  "fst (ResetVAD \<lparr>client_processors =
          [''a'' \<mapsto> \<lparr>speech_detected = True, accumulated_audio = [[1, 2]]\<rparr>]\<rparr> ''a'') = True
   \<and> client_processors (snd (ResetVAD \<lparr>client_processors =
          [''a'' \<mapsto> \<lparr>speech_detected = True, accumulated_audio = [[1, 2]]\<rparr>]\<rparr> ''a'')) ''a''
       = Some \<lparr>speech_detected = False, accumulated_audio = []\<rparr>
   \<and> fst (ResetVAD \<lparr>client_processors =
          [''a'' \<mapsto> \<lparr>speech_detected = True, accumulated_audio = [[1, 2]]\<rparr>]\<rparr> ''b'') = True
   \<and> snd (ResetVAD \<lparr>client_processors =
          [''a'' \<mapsto> \<lparr>speech_detected = True, accumulated_audio = [[1, 2]]\<rparr>]\<rparr> ''b'')
       = \<lparr>client_processors =
          [''a'' \<mapsto> \<lparr>speech_detected = True, accumulated_audio = [[1, 2]]\<rparr>]\<rparr>
   \<and> client_processors (snd (ResetVAD \<lparr>client_processors =
          [''a'' \<mapsto> \<lparr>speech_detected = True, accumulated_audio = [[1, 2]]\<rparr>]\<rparr> ''b'')) ''a''
       = Some \<lparr>speech_detected = True, accumulated_audio = [[1, 2]]\<rparr>"
proof -
  let ?s = "\<lparr>client_processors =
          [''a'' \<mapsto> \<lparr>speech_detected = True, accumulated_audio = [[1, 2]]\<rparr>]\<rparr>"
  note a = ResetVAD_always_succeeds [where self = ?s and client_id = "''a''" and other = "''b''"]
  note b = ResetVAD_always_succeeds [where self = ?s and client_id = "''b''" and other = "''a''"]
  have pa: "client_processors ?s ''a'' \<noteq> None" by simp
  have pb: "client_processors ?s ''b'' = None" by simp
  have ne: "''a'' \<noteq> ''b''" by simp
  from a pa obtain p where p: "client_processors (snd (ResetVAD ?s ''a'')) ''a'' = Some p"
      "speech_detected p = False" "accumulated_audio p = []"
    by auto
  then have p': "client_processors (snd (ResetVAD ?s ''a'')) ''a''
                   = Some \<lparr>speech_detected = False, accumulated_audio = []\<rparr>"
    by simp
  from a b pb ne p' show ?thesis by simp
qed

lemma ProcessAudio_unfold:
  "ProcessAudio model (m, self) client_id requests ending =
     (case handle_requests model m
             (case client_processors self client_id of None \<Rightarrow> new_VADProcessor | Some p \<Rightarrow> p)
             requests of
        (out, processor1, m1) \<Rightarrow>
          ((out, case ending of EOF \<Rightarrow> Completed | Raises e \<Rightarrow> Aborted_INTERNAL),
           (m1, self\<lparr>client_processors :=
                       (client_processors self)(client_id \<mapsto> reset processor1)\<rparr>)))"
  by (auto simp: ProcessAudio_def Let_def split: option.splits prod.splits)

text \<open>
  C4 as stated fails: the terminal path of \<open>ProcessAudio\<close> resets the processor and leaves
  it registered. After a stream from a peer unknown before, the registry has an entry for
  that peer.
\<close>

theorem ProcessAudio_keeps_entry:
  "client_processors
     (snd (snd (ProcessAudio scripted ([], \<lparr>client_processors = Map.empty\<rparr>) ''peer'' [] EOF)))
     ''peer'' = Some \<lparr>speech_detected = False, accumulated_audio = []\<rparr>"
  by (simp add: ProcessAudio_def new_VADProcessor_def reset_def)

text \<open>
  C4, amended. However the inbound sequence ends, and whatever was received, after
  \<open>ProcessAudio\<close> the identity's entry is registered, silent and with an empty accumulator,
  and the call ends normally at the end of the input and with status INTERNAL after an
  exception. A later stream of the same identity therefore works on a processor in the
  state of a new one.
\<close>

theorem ProcessAudio_resets_session:
  "client_processors (snd (snd (ProcessAudio model (m, self) client_id requests ending))) client_id
     = Some \<lparr>speech_detected = False, accumulated_audio = []\<rparr>
   \<and> snd (fst (ProcessAudio model (m, self) client_id requests ending))
       = (case ending of EOF \<Rightarrow> Completed | Raises e \<Rightarrow> Aborted_INTERNAL)
   \<and> fst (fst (ProcessAudio model (snd (ProcessAudio model (m, self) client_id requests ending))
            client_id requests' ending'))
       = fst (handle_requests model
                (fst (snd (ProcessAudio model (m, self) client_id requests ending)))
                \<lparr>speech_detected = False, accumulated_audio = []\<rparr> requests')"
proof -
  obtain out p1 m1 where h: "handle_requests model m
             (case client_processors self client_id of None \<Rightarrow> new_VADProcessor | Some p \<Rightarrow> p)
             requests = (out, p1, m1)"
    by (cases "handle_requests model m
             (case client_processors self client_id of None \<Rightarrow> new_VADProcessor | Some p \<Rightarrow> p)
             requests") auto
  have r: "reset p1 = \<lparr>speech_detected = False, accumulated_audio = []\<rparr>"
    by (simp add: reset_def)
  have a: "ProcessAudio model (m, self) client_id requests ending =
             ((out, case ending of EOF \<Rightarrow> Completed | Raises e \<Rightarrow> Aborted_INTERNAL),
              (m1, self\<lparr>client_processors :=
                 (client_processors self)(client_id \<mapsto>
                    \<lparr>speech_detected = False, accumulated_audio = []\<rparr>)\<rparr>))"
    by (simp add: ProcessAudio_unfold h r)
  show ?thesis
    unfolding a by (auto simp: ProcessAudio_unfold split: prod.splits)
qed

section \<open>What goes on the wire\<close>

lemma handle_request_event:
  "map_option event (fst (handle_request model m processor c))
     = (if fst (process_chunk model m processor c) = ''continue'' then None
        else Some (fst (process_chunk model m processor c)))"
  using process_chunk_status [of model m processor c]
  by (auto simp: handle_request_def split: prod.splits)

lemma handle_requests_events:
  "map event (fst (handle_requests model m processor requests))
     = filter (\<lambda>s. s = ''start'' \<or> s = ''end'') (statuses model m processor requests)"
proof (induction requests arbitrary: m processor)
  case Nil
  show ?case by simp
next
  case (Cons c rest)
  obtain r p1 m1 where h: "handle_request model m processor c = (r, p1, m1)"
    by (cases "handle_request model m processor c") auto
  obtain out p2 m2 where hs: "handle_requests model m1 p1 rest = (out, p2, m2)"
    by (cases "handle_requests model m1 p1 rest") auto
  have ih: "map event out
              = filter (\<lambda>s. s = ''start'' \<or> s = ''end'') (statuses model m1 p1 rest)"
    using Cons.IH [of m1 p1] hs by simp
  have st: "fst (process_chunk model m processor c) \<in> {''start'', ''end'', ''continue''}"
    by (rule process_chunk_status)
  have ev: "map_option event r
     = (if fst (process_chunk model m processor c) = ''continue'' then None
        else Some (fst (process_chunk model m processor c)))"
    using handle_request_event [of model m processor c] h by simp
  show ?case
  proof (cases r)
    case None
    with ev have "fst (process_chunk model m processor c) = ''continue''"
      by (simp split: if_splits)
    with None h hs ih show ?thesis by simp
  next
    case (Some resp)
    with ev have "fst (process_chunk model m processor c) \<noteq> ''continue''"
      and "event resp = fst (process_chunk model m processor c)"
      by (simp_all split: if_splits)
    with st have "fst (process_chunk model m processor c) = ''start''
                  \<or> fst (process_chunk model m processor c) = ''end''"
      by blast
    with \<open>event resp = fst (process_chunk model m processor c)\<close> Some h hs ih
    show ?thesis by simp
  qed
qed

lemma length_statuses: "length (statuses model m processor requests) = length requests"
  by (induction requests arbitrary: m processor) (auto split: prod.splits)

lemma set_statuses:
  "set (statuses model m processor requests) \<subseteq> {''start'', ''end'', ''continue''}"
proof (induction requests arbitrary: m processor)
  case Nil
  show ?case by simp
next
  case (Cons c rest)
  obtain r p1 m1 where h: "handle_request model m processor c = (r, p1, m1)"
    by (cases "handle_request model m processor c") auto
  from Cons.IH [of m1 p1] process_chunk_status [of model m processor c] h
  show ?case by auto
qed

text \<open>
  C7. Every request has one status, one of \<open>start\<close>, \<open>end\<close> and \<open>continue\<close>. The events
  that \<open>ProcessAudio\<close> yields are the statuses of the requests, in the order of the requests,
  with each \<open>continue\<close> left out and nothing else left out or added; an iteration yields
  nothing exactly when its status is \<open>continue\<close>.
\<close>

theorem continue_is_never_sent:
  "map event (fst (fst (ProcessAudio model (m, self) client_id requests ending)))
     = filter (\<lambda>s. s = ''start'' \<or> s = ''end'')
         (statuses model m
            (case client_processors self client_id of None \<Rightarrow> new_VADProcessor | Some p \<Rightarrow> p)
            requests)
   \<and> length (statuses model m
            (case client_processors self client_id of None \<Rightarrow> new_VADProcessor | Some p \<Rightarrow> p)
            requests) = length requests
   \<and> set (statuses model m
            (case client_processors self client_id of None \<Rightarrow> new_VADProcessor | Some p \<Rightarrow> p)
            requests) \<subseteq> {''start'', ''end'', ''continue''}
   \<and> ''continue'' \<notin> event ` set (fst (fst (ProcessAudio model (m, self) client_id requests ending)))
   \<and> map_option event (fst (handle_request model m processor c))
       = (if fst (process_chunk model m processor c) = ''continue'' then None
          else Some (fst (process_chunk model m processor c)))"
proof -
  let ?p = "case client_processors self client_id of None \<Rightarrow> new_VADProcessor | Some p \<Rightarrow> p"
  have o: "fst (fst (ProcessAudio model (m, self) client_id requests ending))
             = fst (handle_requests model m ?p requests)"
    by (simp add: ProcessAudio_unfold split: prod.splits)
  have e: "map event (fst (handle_requests model m ?p requests))
             = filter (\<lambda>s. s = ''start'' \<or> s = ''end'') (statuses model m ?p requests)"
    by (rule handle_requests_events)
  have "set (map event (fst (handle_requests model m ?p requests)))
          \<subseteq> {''start'', ''end''}"
    unfolding e by auto
  then have n: "''continue'' \<notin> event ` set (fst (handle_requests model m ?p requests))"
    by auto
  show ?thesis
    unfolding o
    using e n length_statuses [of model m ?p requests] set_statuses [of model m ?p requests]
      handle_request_event [of model m processor c]
    by (intro conjI)
qed

section \<open>The ten-frame scenario\<close>

lemma handle_request_scripted:
  "even (length c) \<Longrightarrow> handle_request scripted (Inr p # rs) self c =
           (if gt_threshold p \<and> \<not> speech_detected self then
              (Some \<lparr>event = ''start'', message = ''Speech detected''\<rparr>,
               self\<lparr>accumulated_audio := accumulated_audio self @ [c], speech_detected := True\<rparr>,
               rs)
            else if \<not> gt_threshold p \<and> speech_detected self then
              (Some \<lparr>event = ''end'',
                     message = ''Speech ended, ''
                               @ str_nat (length (concat (accumulated_audio self @ [c])))
                               @ '' bytes processed for STT''\<rparr>,
               self\<lparr>accumulated_audio := [], speech_detected := False\<rparr>, rs)
            else (None,
                  self\<lparr>accumulated_audio := accumulated_audio self @ [c],
                       speech_detected := gt_threshold p\<rparr>, rs))"
proof -
  assume "even (length c)"
  then obtain x where x: "audio_tensor_of c = Inr x"
    using audio_tensor_of_even by blast
  have "scripted (Inr p # rs) x SAMPLE_RATE = (Inr p, rs)"
    by simp
  from handle_request_scored [where model = scripted, OF x this] show ?thesis .
qed

lemma list_of_length_10:
  assumes "length xs = 10"
  obtains a b c d e f g h i j where "xs = [a, b, c, d, e, f, g, h, i, j]"
  using assms by (auto simp: eval_nat_numeral length_Suc_conv)

text \<open>
  C2. A session that starts new, fed ten decodable frames that the model scores
  0.1, 0.1, 0.9, 0.9, 0.9, 0.2, 0.2, 0.9, 0.1, 0.1: the statuses of the ten frames are
  \<open>continue\<close> but for \<open>start\<close> at frames 3 and 8 and \<open>end\<close> at frames 6 and 9, and the
  events yielded are \<open>start\<close>, \<open>end\<close>, \<open>start\<close>, \<open>end\<close>, and no other.
\<close>

theorem ten_frame_scenario:
  assumes "length requests = 10" and "\<forall>c\<in>set requests. even (length c)"
    and "client_processors self client_id = None"
  shows "statuses scripted scenario_script new_VADProcessor requests
           = [''continue'', ''continue'', ''start'', ''continue'', ''continue'',
              ''end'', ''continue'', ''start'', ''end'', ''continue'']
       \<and> map event (fst (fst (ProcessAudio scripted (scenario_script, self) client_id
                                  requests EOF)))
           = [''start'', ''end'', ''start'', ''end'']"
proof -
  from assms(1) obtain f1 f2 f3 f4 f5 f6 f7 f8 f9 f10
    where r: "requests = [f1, f2, f3, f4, f5, f6, f7, f8, f9, f10]"
    by (rule list_of_length_10)
  from assms(2) have ev: "even (length f1)" "even (length f2)" "even (length f3)"
      "even (length f4)" "even (length f5)" "even (length f6)" "even (length f7)"
      "even (length f8)" "even (length f9)" "even (length f10)"
    by (simp_all add: r)
  have st: "statuses scripted scenario_script new_VADProcessor requests
           = [''continue'', ''continue'', ''start'', ''continue'', ''continue'',
              ''end'', ''continue'', ''start'', ''end'', ''continue'']"
    by (simp add: r ev scenario_script_def new_VADProcessor_def
        handle_request_scripted process_chunk_scripted)
  have o: "fst (fst (ProcessAudio scripted (scenario_script, self) client_id requests EOF))
             = fst (handle_requests scripted scenario_script new_VADProcessor requests)"
    by (simp add: ProcessAudio_unfold assms(3) split: prod.splits)
  have "map event (fst (fst (ProcessAudio scripted (scenario_script, self) client_id
                                  requests EOF)))
          = filter (\<lambda>s. s = ''start'' \<or> s = ''end'')
              (statuses scripted scenario_script new_VADProcessor requests)"
    unfolding o by (rule handle_requests_events)
  with st show ?thesis by simp
qed

theorem ten_frame_scenario_witness:
  "statuses scripted scenario_script new_VADProcessor (replicate 10 (replicate 1024 0))
           = [''continue'', ''continue'', ''start'', ''continue'', ''continue'',
              ''end'', ''continue'', ''start'', ''end'', ''continue'']
   \<and> map event (fst (fst (ProcessAudio scripted
        (scenario_script, \<lparr>client_processors = Map.empty\<rparr>) ''peer''
        (replicate 10 (replicate 1024 0)) EOF)))
           = [''start'', ''end'', ''start'', ''end'']"
  using ten_frame_scenario [of "replicate 10 (replicate 1024 0)"
          "\<lparr>client_processors = Map.empty\<rparr>" "''peer''"]
  by simp

section \<open>What a flush contains\<close>

lemma handle_request_cases:
  obtains (undecodable) e where "audio_tensor_of c = Inl e"
      "handle_request model m p c = (None, p, m)"
  | (raises) x e m1 where "audio_tensor_of c = Inr x" "model m x SAMPLE_RATE = (Inl e, m1)"
      "handle_request model m p c = (None, p, m1)"
  | (scored) x pr m1 where "audio_tensor_of c = Inr x" "model m x SAMPLE_RATE = (Inr pr, m1)"
proof (cases "audio_tensor_of c")
  case (Inl e)
  from undecodable [OF Inl handle_request_undecodable [where model = model, OF Inl]]
  show ?thesis .
next
  case (Inr x)
  obtain res m1 where s: "model m x SAMPLE_RATE = (res, m1)"
    by (cases "model m x SAMPLE_RATE") auto
  show ?thesis
  proof (cases res)
    case (Inl e)
    with s have s': "model m x SAMPLE_RATE = (Inl e, m1)" by simp
    from raises [OF Inr s' handle_request_scorer_raises [where model = model, OF Inr s']]
    show ?thesis .
  next
    case R: (Inr pr)
    with s have s': "model m x SAMPLE_RATE = (Inr pr, m1)" by simp
    from scored [OF Inr s'] show ?thesis .
  qed
qed

lemma accumulator_without_flush:
  assumes "handle_requests model m p pre = (out, p1, m1)"
    and "\<forall>r\<in>set out. event r \<noteq> ''end''"
  shows "accumulated_audio p1 = accumulated_audio p @ scored_frames model m pre"
  using assms
proof (induction pre arbitrary: m p out)
  case Nil
  then show ?case by simp
next
  case (Cons c rest)
  obtain r pa ma where h: "handle_request model m p c = (r, pa, ma)"
    by (cases "handle_request model m p c") auto
  obtain out' pb mb where hs: "handle_requests model ma pa rest = (out', pb, mb)"
    by (cases "handle_requests model ma pa rest") auto
  from Cons.prems(1) h hs have eq: "out = (case r of None \<Rightarrow> out' | Some resp \<Rightarrow> resp # out')"
      "p1 = pb" "m1 = mb"
    by simp_all
  with Cons.prems(2) have ne: "\<forall>r\<in>set out'. event r \<noteq> ''end''"
    and nr: "\<And>resp. r = Some resp \<Longrightarrow> event resp \<noteq> ''end''"
    by (auto split: option.splits)
  from hs eq have hs': "handle_requests model ma pa rest = (out', p1, m1)"
    by simp
  from Cons.IH [OF hs' ne] eq
  have ih: "accumulated_audio pb = accumulated_audio pa @ scored_frames model ma rest"
    by simp
  show ?case
  proof (cases rule: handle_request_cases [of c model m p])
    case (undecodable e)
    with h ih eq show ?thesis by simp
  next
    case (raises x e m1')
    with h ih eq show ?thesis by simp
  next
    case (scored x pr m1')
    note hr = handle_request_scored [where model = model and self = p, OF scored]
    from hr h nr
    have "pa = p\<lparr>accumulated_audio := accumulated_audio p @ [c],
                  speech_detected := gt_threshold pr\<rparr>
          \<or> pa = p\<lparr>accumulated_audio := accumulated_audio p @ [c], speech_detected := True\<rparr>"
      and "ma = m1'"
      by (auto split: if_splits)
    with scored ih eq show ?thesis by auto
  qed
qed

lemma scored_frames_append:
  "scored_frames model m (pre @ rest)
     = scored_frames model m pre
       @ scored_frames model (snd (snd (handle_requests model m p pre))) rest"
proof (induction pre arbitrary: m p)
  case Nil
  show ?case by simp
next
  case (Cons c pre)
  show ?case
  proof (cases rule: handle_request_cases [of c model m p])
    case (undecodable e)
    with Cons.IH [of m p] show ?thesis by (simp split: prod.splits)
  next
    case (raises x e m1)
    with Cons.IH [of m1 p] show ?thesis by (simp split: prod.splits)
  next
    case (scored x pr m1)
    note hr = handle_request_scored [where model = model and self = p, OF scored]
    obtain r pa where h: "handle_request model m p c = (r, pa, m1)"
      using hr by (auto split: if_splits)
    with scored Cons.IH [of m1 pa] show ?thesis by (simp split: prod.splits)
  qed
qed

lemma handle_requests_append:
  "handle_requests model m p (xs @ ys) =
     (case handle_requests model m p xs of
        (out1, p1, m1) \<Rightarrow>
          (case handle_requests model m1 p1 ys of
             (out2, p2, m2) \<Rightarrow> (out1 @ out2, p2, m2)))"
  by (induction xs arbitrary: m p) (auto split: prod.splits option.splits)

lemma end_status_scored:
  assumes "fst (process_chunk model m p c) = ''end''"
  obtains x pr m1 where "audio_tensor_of c = Inr x" "model m x SAMPLE_RATE = (Inr pr, m1)"
    "\<not> gt_threshold pr" "speech_detected p"
proof (cases "audio_tensor_of c")
  case (Inl e)
  with assms process_chunk_undecodable [where model = model, OF Inl] show ?thesis
    by simp
next
  case (Inr x)
  obtain res m1 where s: "model m x SAMPLE_RATE = (res, m1)"
    by (cases "model m x SAMPLE_RATE") auto
  show ?thesis
  proof (cases res)
    case (Inl e)
    with s have s': "model m x SAMPLE_RATE = (Inl e, m1)" by simp
    from assms process_chunk_scorer_raises [where model = model, OF Inr s'] show ?thesis
      by simp
  next
    case R: (Inr pr)
    with s have s': "model m x SAMPLE_RATE = (Inr pr, m1)" by simp
    from assms process_chunk_scored [where model = model and self = p, OF Inr s']
    have "\<not> gt_threshold pr" "speech_detected p"
      by (auto split: if_splits)
    with that Inr s' show ?thesis by blast
  qed
qed

text \<open>
  C3 as stated fails: a frame that does not decode has status \<open>continue\<close> and is not
  appended, and the length in the next \<open>end\<close> message leaves it out. Here three frames of
  five bytes in all are processed, and the flush reports four.
\<close>

theorem undecodable_frame_not_accumulated:
  "process_chunk scripted [Inr (Finite (1/10))]
       \<lparr>speech_detected = True, accumulated_audio = [[1, 2]]\<rparr> [3]
     = (''continue'', \<lparr>speech_detected = True, accumulated_audio = [[1, 2]]\<rparr>,
        [Inr (Finite (1/10))])
   \<and> fst (handle_requests scripted [Inr (Finite (9/10)), Inr (Finite (1/10))] new_VADProcessor
            [[1, 2], [3], [4, 5]])
       = [\<lparr>event = ''start'', message = ''Speech detected''\<rparr>,
          \<lparr>event = ''end'', message = ''Speech ended, 4 bytes processed for STT''\<rparr>]
   \<and> length (concat [[1, 2], [3], [4, 5 :: byte]]) = 5"
  by (simp add: process_chunk_undecodable handle_request_undecodable audio_tensor_of_odd
      handle_request_scripted new_VADProcessor_def str_nat.simps)

text \<open>
  C3, amended. Every frame that is decoded and scored is appended to the accumulator,
  whatever its status; the frames whose processing raises are not. So when a frame's
  status is \<open>end\<close>, after requests handled from an empty accumulator (a new or reset
  session, or the state after a flush) without an \<open>end\<close>, the length in the \<open>end\<close>
  message is the sum of the lengths of the frames decoded and scored among those requests
  and that frame, and the accumulator is empty afterwards.
\<close>

theorem flush_holds_scored_frames:
  "(audio_tensor_of c = Inr x \<and> model m x SAMPLE_RATE = (Inr pr, ma) \<longrightarrow>
      accumulated_audio (fst (snd (process_chunk model m self c))) = accumulated_audio self @ [c])
   \<and> (accumulated_audio processor = []
      \<and> handle_requests model m processor pre = (out, p1, m1)
      \<and> (\<forall>r\<in>set out. event r \<noteq> ''end'')
      \<and> fst (process_chunk model m1 p1 c') = ''end'' \<longrightarrow>
      fst (handle_requests model m processor (pre @ [c']))
        = out @ [\<lparr>event = ''end'',
                   message = ''Speech ended, ''
                     @ str_nat (sum_list (map length (scored_frames model m (pre @ [c']))))
                     @ '' bytes processed for STT''\<rparr>]
      \<and> accumulated_audio (fst (snd (handle_requests model m processor (pre @ [c'])))) = [])"
proof -
  have A: "accumulated_audio (fst (snd (process_chunk model m self c)))
             = accumulated_audio self @ [c]"
    if "audio_tensor_of c = Inr x" "model m x SAMPLE_RATE = (Inr pr, ma)"
    using process_chunk_scored [where model = model and self = self, OF that] by simp
  have B: "fst (handle_requests model m processor (pre @ [c']))
        = out @ [\<lparr>event = ''end'',
                   message = ''Speech ended, ''
                     @ str_nat (sum_list (map length (scored_frames model m (pre @ [c']))))
                     @ '' bytes processed for STT''\<rparr>]
      \<and> accumulated_audio (fst (snd (handle_requests model m processor (pre @ [c'])))) = []"
    if e: "accumulated_audio processor = []"
      and h: "handle_requests model m processor pre = (out, p1, m1)"
      and n: "\<forall>r\<in>set out. event r \<noteq> ''end''"
      and s: "fst (process_chunk model m1 p1 c') = ''end''"
  proof -
    from s obtain x' pr' m2 where sc: "audio_tensor_of c' = Inr x'"
        "model m1 x' SAMPLE_RATE = (Inr pr', m2)"
      and d: "\<not> gt_threshold pr'" "speech_detected p1"
      by (rule end_status_scored)
    have acc: "accumulated_audio p1 = scored_frames model m pre"
      using accumulator_without_flush [OF h n] e by simp
    have sf: "scored_frames model m (pre @ [c']) = scored_frames model m pre @ [c']"
      using scored_frames_append [of model m pre "[c']" processor] h sc by simp
    have hr: "handle_request model m1 p1 c' =
                (Some \<lparr>event = ''end'',
                       message = ''Speech ended, ''
                         @ str_nat (length (concat (accumulated_audio p1 @ [c'])))
                         @ '' bytes processed for STT''\<rparr>,
                 p1\<lparr>accumulated_audio := [], speech_detected := False\<rparr>, m2)"
      using handle_request_scored [where model = model and self = p1, OF sc] d by simp
    have len: "length (concat (accumulated_audio p1 @ [c']))
                 = sum_list (map length (scored_frames model m (pre @ [c'])))"
      by (simp add: acc sf length_concat)
    show ?thesis
      using len by (simp add: handle_requests_append h hr)
  qed
  from A B show ?thesis by blast
qed

theorem flush_holds_scored_frames_witness:
  "accumulated_audio (fst (snd (process_chunk scripted [Inr (Finite (1/10))]
       \<lparr>speech_detected = False, accumulated_audio = [[1, 2]]\<rparr> [4, 5]))) = [[1, 2], [4, 5]]
   \<and> fst (handle_requests scripted [Inr (Finite (9/10)), Inr (Finite (1/10))] new_VADProcessor
            ([[1, 2], [3]] @ [[4, 5]]))
       = [\<lparr>event = ''start'', message = ''Speech detected''\<rparr>]
         @ [\<lparr>event = ''end'',
              message = ''Speech ended, ''
                @ str_nat (sum_list (map length
                    (scored_frames scripted [Inr (Finite (9/10)), Inr (Finite (1/10))]
                       ([[1, 2], [3]] @ [[4, 5]]))))
                @ '' bytes processed for STT''\<rparr>]
   \<and> scored_frames scripted [Inr (Finite (9/10)), Inr (Finite (1/10))] ([[1, 2], [3]] @ [[4, 5]])
       = [[1, 2], [4, 5]]"
proof -
  obtain x where x: "audio_tensor_of [4, 5] = Inr x"
    using audio_tensor_of_even [of "[4, 5]"] by auto
  have s: "scripted [Inr (Finite (1/10))] x SAMPLE_RATE = (Inr (Finite (1/10)), [])"
    by simp
  obtain y where y: "audio_tensor_of [1, 2] = Inr y"
    using audio_tensor_of_even [of "[1, 2]"] by auto
  have o: "audio_tensor_of [3] = Inl ValueError"
    by (simp add: audio_tensor_of_odd)
  have h: "handle_requests scripted [Inr (Finite (9/10)), Inr (Finite (1/10))] new_VADProcessor
             [[1, 2], [3]]
           = ([\<lparr>event = ''start'', message = ''Speech detected''\<rparr>],
              \<lparr>speech_detected = True, accumulated_audio = [[1, 2]]\<rparr>,
              [Inr (Finite (1/10))])"
    by (simp add: handle_request_scripted handle_request_undecodable o new_VADProcessor_def)
  have e: "fst (process_chunk scripted [Inr (Finite (1/10))]
                  \<lparr>speech_detected = True, accumulated_audio = [[1, 2]]\<rparr> [4, 5]) = ''end''"
    by (simp add: process_chunk_scripted)
  have sf: "scored_frames scripted [Inr (Finite (9/10)), Inr (Finite (1/10))]
              ([[1, 2], [3]] @ [[4, 5]]) = [[1, 2], [4, 5]]"
    using x y o by simp
  note t = flush_holds_scored_frames
             [where model = scripted and c = "[4, 5]" and x = x and m = "[Inr (Finite (1/10))]"
                and pr = "Finite (1/10)" and ma = "[]"
                and self = "\<lparr>speech_detected = False, accumulated_audio = [[1, 2]]\<rparr>"]
  note u = flush_holds_scored_frames
             [where model = scripted and m = "[Inr (Finite (9/10)), Inr (Finite (1/10))]"
                and processor = new_VADProcessor and pre = "[[1, 2], [3]]"
                and out = "[\<lparr>event = ''start'', message = ''Speech detected''\<rparr>]"
                and ?p1.0 = "\<lparr>speech_detected = True, accumulated_audio = [[1, 2]]\<rparr>"
                and ?m1.0 = "[Inr (Finite (1/10))]" and c' = "[4, 5]"]
  have a: "accumulated_audio (fst (snd (process_chunk scripted [Inr (Finite (1/10))]
       \<lparr>speech_detected = False, accumulated_audio = [[1, 2]]\<rparr> [4, 5]))) = [[1, 2], [4, 5]]"
    using t x s by simp
  have n: "accumulated_audio new_VADProcessor = []"
    by (simp add: new_VADProcessor_def)
  have b: "fst (handle_requests scripted [Inr (Finite (9/10)), Inr (Finite (1/10))] new_VADProcessor
            ([[1, 2], [3]] @ [[4, 5]]))
       = [\<lparr>event = ''start'', message = ''Speech detected''\<rparr>]
         @ [\<lparr>event = ''end'',
              message = ''Speech ended, ''
                @ str_nat (sum_list (map length
                    (scored_frames scripted [Inr (Finite (9/10)), Inr (Finite (1/10))]
                       ([[1, 2], [3]] @ [[4, 5]]))))
                @ '' bytes processed for STT''\<rparr>]"
    using u n h e by simp
  from a b sf show ?thesis by blast
qed

section \<open>The client's frames\<close>

lemma read_wav_file_loop_step:
  assumes "nchannels wav = 1" and "sampwidth wav = 2" and "length data \<le> 1024"
  shows "read_wav_file_loop running i 1024 wav data =
           (if data \<noteq> [] \<and> running i then
              (data @ replicate (1024 - length data) 0)
              # read_wav_file_loop running (Suc i) 1024
                  (wav\<lparr>frames_data := drop 1024 (frames_data wav)\<rparr>)
                  (take 1024 (frames_data wav))
            else [])"
  using assms
  by (subst read_wav_file_loop.simps)
     (auto simp: readframes_def VAD_CHUNK_SIZE_def nat_diff_distrib')

lemma read_wav_file_loop_nth:
  assumes "nchannels wav = 1" and "sampwidth wav = 2"
    and "data = take 1024 W" and "frames_data wav = drop 1024 W"
    and "k < length (read_wav_file_loop running i 1024 wav data)"
  shows "take 1024 (drop (1024 * k) W) \<noteq> []
       \<and> read_wav_file_loop running i 1024 wav data ! k
           = take 1024 (drop (1024 * k) W)
             @ replicate (1024 - length (take 1024 (drop (1024 * k) W))) 0
       \<and> (Suc k < length (read_wav_file_loop running i 1024 wav data)
            \<longrightarrow> length (take 1024 (drop (1024 * k) W)) = 1024)"
  using assms
proof (induction "length W" arbitrary: W wav data i k rule: less_induct)
  case less
  let ?wav' = "wav\<lparr>frames_data := drop 1024 (frames_data wav)\<rparr>"
  let ?data' = "take 1024 (frames_data wav)"
  let ?rest = "read_wav_file_loop running (Suc i) 1024 ?wav' ?data'"
  have le: "length data \<le> 1024"
    using less.prems(3) by simp
  note step = read_wav_file_loop_step [OF less.prems(1,2) le, of running i]
  from less.prems(5) step have ne: "data \<noteq> []" and run: "running i"
    by (auto split: if_splits)
  with step have out: "read_wav_file_loop running i 1024 wav data
                        = (data @ replicate (1024 - length data) 0) # ?rest"
    by simp
  from ne less.prems(3) have W: "W \<noteq> []"
    by auto
  show ?case
  proof (cases k)
    case 0
    have "?rest \<noteq> [] \<Longrightarrow> length data = 1024"
    proof -
      assume r: "?rest \<noteq> []"
      have le': "length ?data' \<le> 1024" by simp
      have w1: "nchannels ?wav' = 1" and w2: "sampwidth ?wav' = 2"
        using less.prems(1,2) by simp_all
      from r read_wav_file_loop_step [OF w1 w2 le', of running "Suc i"]
      have "?data' \<noteq> []"
        by (auto split: if_splits)
      then have "drop 1024 W \<noteq> []"
        using less.prems(4) by auto
      then show ?thesis
        using less.prems(3) by simp
    qed
    with 0 out ne less.prems(3) show ?thesis
      by auto
  next
    case (Suc k')
    have lt: "length (drop 1024 W) < length W"
      using W by simp
    have w1: "nchannels ?wav' = 1" and w2: "sampwidth ?wav' = 2"
      using less.prems(1,2) by simp_all
    have d: "?data' = take 1024 (drop 1024 W)"
      using less.prems(4) by simp
    have f: "frames_data ?wav' = drop 1024 (drop 1024 W)"
      using less.prems(4) by simp
    have k': "k' < length ?rest"
      using less.prems(5) out Suc by simp
    note ih = less.hyps [OF lt w1 w2 d f k']
    have dd: "drop (1024 * k') (drop 1024 W) = drop (1024 * k) W"
      using Suc by (simp add: add.commute)
    from ih show ?thesis
      unfolding dd using out Suc by simp
  qed
qed

lemma read_wav_file_loop_length:
  assumes "nchannels wav = 1" and "sampwidth wav = 2"
    and "data = take 1024 W" and "frames_data wav = drop 1024 W"
    and "\<forall>i. running i"
  shows "length (read_wav_file_loop running i 1024 wav data) = (length W + 1023) div 1024"
  using assms
proof (induction "length W" arbitrary: W wav data i rule: less_induct)
  case less
  let ?wav' = "wav\<lparr>frames_data := drop 1024 (frames_data wav)\<rparr>"
  let ?data' = "take 1024 (frames_data wav)"
  let ?rest = "read_wav_file_loop running (Suc i) 1024 ?wav' ?data'"
  have le: "length data \<le> 1024"
    using less.prems(3) by simp
  note step = read_wav_file_loop_step [OF less.prems(1,2) le, of running i]
  show ?case
  proof (cases "W = []")
    case True
    with step less.prems(3) show ?thesis by simp
  next
    case False
    then have ne: "data \<noteq> []"
      using less.prems(3) by simp
    have lt: "length (drop 1024 W) < length W"
      using False by simp
    have w1: "nchannels ?wav' = 1" and w2: "sampwidth ?wav' = 2"
      using less.prems(1,2) by simp_all
    have d: "?data' = take 1024 (drop 1024 W)"
      using less.prems(4) by simp
    have f: "frames_data ?wav' = drop 1024 (drop 1024 W)"
      using less.prems(4) by simp
    from less.hyps [OF lt w1 w2 d f less.prems(5), of "Suc i"]
    have ih: "length ?rest = (length W - 1024 + 1023) div 1024"
      by simp
    from False have pos: "0 < length W" by simp
    have "Suc ((length W - 1024 + 1023) div 1024) = (length W + 1023) div 1024"
    proof (cases "length W \<le> 1024")
      case True
      with pos have "(length W + 1023) div 1024 = 1"
        by (simp add: div_eq_dividend_iff Suc_leI div_nat_eqI)
      with True show ?thesis by simp
    next
      case False
      then have "length W + 1023 = (length W - 1024 + 1023) + 1 * 1024"
        by simp
      then have "(length W + 1023) div 1024 = (length W - 1024 + 1023) div 1024 + 1"
        by (metis div_mult_self1 add.commute zero_neq_numeral)
      then show ?thesis by simp
    qed
    with step ne less.prems(5) ih show ?thesis by simp
  qed
qed

text \<open>
  C6. For a file in the format of the data model, mono and 16-bit, whatever its bytes:
  every item yielded has 1024 bytes; the \<open>k\<close>-th item is the \<open>k\<close>-th read of 1024 bytes of
  the data, which is not empty, followed by zeros up to 1024 bytes, so a full read is
  yielded as it is; every item but the last is a full read; and with the flag never
  cleared the items are as many as the non-empty reads, the sequence ending at the first
  empty one.
\<close>

theorem read_wav_file_frames:
  assumes "nchannels wav = 1" and "sampwidth wav = 2"
  shows "(\<forall>f. f \<in> set (read_wav_file running (Inr wav)) \<longrightarrow> length f = 1024)
       \<and> (\<forall>k. k < length (read_wav_file running (Inr wav)) \<longrightarrow>
             take 1024 (drop (1024 * k) (frames_data wav)) \<noteq> []
             \<and> read_wav_file running (Inr wav) ! k
                 = take 1024 (drop (1024 * k) (frames_data wav))
                   @ replicate (1024 - length (take 1024 (drop (1024 * k) (frames_data wav)))) 0
             \<and> (length (take 1024 (drop (1024 * k) (frames_data wav))) = 1024 \<longrightarrow>
                  read_wav_file running (Inr wav) ! k
                    = take 1024 (drop (1024 * k) (frames_data wav)))
             \<and> (Suc k < length (read_wav_file running (Inr wav)) \<longrightarrow>
                  read_wav_file running (Inr wav) ! k
                    = take 1024 (drop (1024 * k) (frames_data wav))))
       \<and> ((\<forall>i. running i) \<longrightarrow>
             length (read_wav_file running (Inr wav)) = (length (frames_data wav) + 1023) div 1024)"
proof -
  let ?W = "frames_data wav"
  let ?wav1 = "wav\<lparr>frames_data := drop 1024 ?W\<rparr>"
  have out: "read_wav_file running (Inr wav)
               = read_wav_file_loop running 0 1024 ?wav1 (take 1024 ?W)"
    using assms by (simp add: read_wav_file_def readframes_def VAD_CHUNK_SIZE_def)
  have w1: "nchannels ?wav1 = 1" and w2: "sampwidth ?wav1 = 2"
    and f: "frames_data ?wav1 = drop 1024 ?W"
    using assms by simp_all
  note nth = read_wav_file_loop_nth [OF w1 w2 refl f, of _ running 0]
  have B: "take 1024 (drop (1024 * k) ?W) \<noteq> []
             \<and> read_wav_file running (Inr wav) ! k
                 = take 1024 (drop (1024 * k) ?W)
                   @ replicate (1024 - length (take 1024 (drop (1024 * k) ?W))) 0
             \<and> (length (take 1024 (drop (1024 * k) ?W)) = 1024 \<longrightarrow>
                  read_wav_file running (Inr wav) ! k = take 1024 (drop (1024 * k) ?W))
             \<and> (Suc k < length (read_wav_file running (Inr wav)) \<longrightarrow>
                  read_wav_file running (Inr wav) ! k = take 1024 (drop (1024 * k) ?W))"
    if "k < length (read_wav_file running (Inr wav))" for k
    using nth [of k] that unfolding out by auto
  have A: "length f = 1024" if "f \<in> set (read_wav_file running (Inr wav))" for f
  proof -
    from that obtain k where k: "k < length (read_wav_file running (Inr wav))"
      and fk: "f = read_wav_file running (Inr wav) ! k"
      by (auto simp: in_set_conv_nth)
    from B [OF k] fk show ?thesis by simp
  qed
  have C: "length (read_wav_file running (Inr wav)) = (length ?W + 1023) div 1024"
    if "\<forall>i. running i"
    unfolding out by (rule read_wav_file_loop_length [OF w1 w2 refl f that])
  from A B C show ?thesis by blast
qed

theorem read_wav_file_frames_witness:
  "length (read_wav_file always_running
             (Inr \<lparr>nchannels = 1, sampwidth = 2, framerate = 16000,
                   frames_data = replicate 1024 1 @ [2, 3]\<rparr>)) = 2
   \<and> read_wav_file always_running
         (Inr \<lparr>nchannels = 1, sampwidth = 2, framerate = 16000,
               frames_data = replicate 1024 1 @ [2, 3]\<rparr>) ! 0 = replicate 1024 1
   \<and> read_wav_file always_running
         (Inr \<lparr>nchannels = 1, sampwidth = 2, framerate = 16000,
               frames_data = replicate 1024 1 @ [2, 3]\<rparr>) ! 1 = [2, 3] @ replicate 1022 0"
proof -
  let ?w = "\<lparr>nchannels = 1, sampwidth = 2, framerate = 16000,
             frames_data = replicate 1024 1 @ [2, 3 :: byte]\<rparr>"
  let ?out = "read_wav_file always_running (Inr ?w)"
  have c: "nchannels ?w = 1" and w: "sampwidth ?w = 2"
    by simp_all
  note t = read_wav_file_frames [OF c w, of always_running]
  have r: "\<forall>i. always_running i"
    by (simp add: always_running_def)
  from t r have l: "length ?out = 2"
    by simp
  from t have n: "\<And>k. k < length ?out \<Longrightarrow>
      ?out ! k = take 1024 (drop (1024 * k) (frames_data ?w))
                 @ replicate (1024 - length (take 1024 (drop (1024 * k) (frames_data ?w)))) 0"
    by blast
  have k0: "0 < length ?out" and k1: "1 < length ?out"
    using l by simp_all
  have n0: "?out ! 0 = replicate 1024 1"
    using n [OF k0] by simp
  have n1: "?out ! 1 = [2, 3] @ replicate 1022 0"
    using n [OF k1] by simp
  from l n0 n1 show ?thesis by blast
qed

end
